theory Spec2Isabelle
  imports Complex_Main
begin

section \<open>Data model of \<^verbatim>\<open>giagrad/tensor.py\<close>\<close>

text \<open>
  The numeric buffers are NumPy arrays. A buffer is modelled by its shape, its element
  type and its elements in row-major order. The elements are real numbers: the rounding
  of floating-point arithmetic is not modelled, the element type is a tag. Every raw
  (non-Tensor) operand is a buffer too; a Python scalar is the buffer of shape \<open>[]\<close>.
  Buffers have value semantics: two tensors never share one.
\<close>

datatype dtype = Float32 | Float64

record buffer =
  shape :: "nat list"
  dtype :: dtype
  elems :: "real list"

datatype error = AttributeError | NotImplementedError | ValueError | RecursionError

text \<open>The operator classes that \<^verbatim>\<open>Tensor\<close> names (\<^verbatim>\<open>mops\<close>, \<^verbatim>\<open>rops\<close>, \<^verbatim>\<open>mlops\<close>).\<close>

datatype operator =
  Op_Exp | Op_Log | Op_Reciprocal | Op_Abs | Op_ReLU
  | Op_Add | Op_Sub | Op_Mul | Op_Pow | Op_Matmul | Op_Div
  | Op_Mean | Op_Max | Op_Min | Op_Sum

text \<open>
  Tensors are objects with identity: a tensor is an address of the store. A value handed
  to \<^verbatim>\<open>comm\<close>, to an in-place operator or saved in \<^verbatim>\<open>Context.parents\<close> is a
  Tensor or something else (\<^verbatim>\<open>isinstance(t, Tensor)\<close>).
\<close>

datatype pyval = TensorRef nat | Raw buffer

text \<open>\<^verbatim>\<open>class Context\<close>: the operator class of the instance and \<^verbatim>\<open>self.parents\<close>.\<close>

record Context =
  cls :: operator
  parents :: "pyval list"

text \<open>
  \<^verbatim>\<open>Tensor.__slots__ = ["data", "grad", "_ctx", "requires_grad", "name"]\<close>. The slot
  \<^verbatim>\<open>_ctx\<close> holds \<^verbatim>\<open>None\<close> or a Context, or is empty after \<^verbatim>\<open>del tensor._ctx\<close>;
  reading an empty slot raises AttributeError.
\<close>

datatype slot = Deleted | Val "Context option"

record tensor =
  data :: buffer
  grad :: buffer
  ctx :: slot
  requires_grad :: bool
  name :: string

text \<open>The store: the tensor at every address, and the next address to allocate.\<close>

record store =
  cells :: "nat \<Rightarrow> tensor"
  fresh :: nat

definition upd :: "nat \<Rightarrow> (tensor \<Rightarrow> tensor) \<Rightarrow> store \<Rightarrow> store" where
  "upd a f st = st\<lparr>cells := (cells st)(a := f (cells st a))\<rparr>"

section \<open>NumPy primitives\<close>

definition np_zeros :: "nat list \<Rightarrow> dtype \<Rightarrow> buffer" where
  "np_zeros shp dt = \<lparr>shape = shp, dtype = dt, elems = replicate (prod_list shp) 0\<rparr>"

definition np_ones :: "nat list \<Rightarrow> dtype \<Rightarrow> buffer" where
  "np_ones shp dt = \<lparr>shape = shp, dtype = dt, elems = replicate (prod_list shp) 1\<rparr>"

definition np_zeros_like :: "buffer \<Rightarrow> buffer" where
  "np_zeros_like b = np_zeros (shape b) (dtype b)"

text \<open>\<^verbatim>\<open>np.array(data, dtype=np.float32)\<close>: a copy of the data, as float32.\<close>

definition np_array :: "buffer \<Rightarrow> buffer" where
  "np_array b = b\<lparr>dtype := Float32\<rparr>"

definition np_eye :: "nat \<Rightarrow> buffer" where
  "np_eye n = \<lparr>shape = [n, n], dtype = Float32,
     elems = concat (map (\<lambda>i. map (\<lambda>j. if i = j then 1 else 0) [0..<n]) [0..<n])\<rparr>"

text \<open>\<^verbatim>\<open>np.arange(start=start, stop=stop, dtype=np.float32)\<close>, step 1.\<close>

definition np_arange :: "real \<Rightarrow> real \<Rightarrow> buffer" where
  "np_arange start stop =
     (let n = nat \<lceil>stop - start\<rceil>
      in \<lparr>shape = [n], dtype = Float32, elems = map (\<lambda>i. start + real i) [0..<n]\<rparr>)"

text \<open>
  The arithmetic of NumPy on the elements is a parameter of the model: \<open>ev f a x\<close> is the
  list of elements that the universal function \<open>f\<close> computes from \<open>a\<close> and \<open>x\<close>.
\<close>

datatype ufunc = Add | Subtract | Multiply | Power | True_divide | Matmul

type_synonym numerics = "ufunc \<Rightarrow> buffer \<Rightarrow> buffer \<Rightarrow> real list"

text \<open>
  Broadcasting, on reversed shapes: \<open>fits xs ys\<close> when an operand of shape \<open>rev xs\<close> can be
  broadcast to the shape \<open>rev ys\<close>.
\<close>

fun fits :: "nat list \<Rightarrow> nat list \<Rightarrow> bool" where
  "fits [] ys = True"
| "fits (x # xs) [] = False"
| "fits (x # xs) (y # ys) = ((x = 1 \<or> x = y) \<and> fits xs ys)"

text \<open>
  An in-place universal function (\<^verbatim>\<open>a += x\<close> on arrays) writes into the array \<open>a\<close>:
  its shape and element type stay, and the other operand must broadcast to that shape.
\<close>

definition np_inplace :: "numerics \<Rightarrow> ufunc \<Rightarrow> buffer \<Rightarrow> buffer \<Rightarrow> error + buffer" where
  "np_inplace ev f a x =
     (if fits (rev (shape x)) (rev (shape a)) then Inr (a\<lparr>elems := ev f a x\<rparr>)
      else Inl ValueError)"

fun broadcast_rev :: "nat list \<Rightarrow> nat list \<Rightarrow> nat list option" where
  "broadcast_rev [] ys = Some ys"
| "broadcast_rev (x # xs) [] = Some (x # xs)"
| "broadcast_rev (x # xs) (y # ys) =
     (if x = y \<or> x = 1 \<or> y = 1
      then map_option ((#) (if x = 1 then y else x)) (broadcast_rev xs ys)
      else None)"

text \<open>
  The shape of \<^verbatim>\<open>a @ b\<close>: a one-dimensional operand is a row (on the left) or a column
  (on the right) and its added axis is dropped from the result; the leading axes broadcast.
\<close>

definition matmul_shape :: "nat list \<Rightarrow> nat list \<Rightarrow> nat list option" where
  "matmul_shape s1 s2 =
     (if s1 = [] \<or> s2 = [] then None
      else
        (case (rev (if length s1 = 1 then 1 # s1 else s1),
               rev (if length s2 = 1 then s2 @ [1] else s2)) of
           (k # n # b1, m # k' # b2) \<Rightarrow>
             (if k = k' then
                (case broadcast_rev b1 b2 of
                   None \<Rightarrow> None
                 | Some b \<Rightarrow>
                     Some (rev b @ (if length s1 = 1 then [] else [n])
                                 @ (if length s2 = 1 then [] else [m])))
              else None)
         | _ \<Rightarrow> None))"

definition np_matmul :: "numerics \<Rightarrow> buffer \<Rightarrow> buffer \<Rightarrow> error + buffer" where
  "np_matmul ev a b =
     (case matmul_shape (shape a) (shape b) of
        None \<Rightarrow> Inl ValueError
      | Some s \<Rightarrow>
          Inr \<lparr>shape = s,
               dtype = (if dtype a = Float32 \<and> dtype b = Float32 then Float32 else Float64),
               elems = ev Matmul a b\<rparr>)"

section \<open>Construction\<close>

text \<open>
  \<^verbatim>\<open>Tensor.__init__(self, data, requires_grad=False, context=None, name='')\<close>; the new
  object is allocated at the next address.
\<close>

definition Tensor_init ::
  "buffer \<Rightarrow> bool \<Rightarrow> Context option \<Rightarrow> string \<Rightarrow> store \<Rightarrow> nat \<times> store" where
  "Tensor_init d rg c nm st =
     (let self = fresh st; v = np_array d
      in (self,
          st\<lparr>cells := (cells st)(self :=
                \<lparr>data = v, grad = np_zeros_like v, ctx = Val c,
                 requires_grad = rg, name = nm\<rparr>),
             fresh := Suc self\<rparr>))"

text \<open>\<^verbatim>\<open>Tensor(data)\<close>: the constructor with the defaults of its signature.\<close>

definition Tensor_data :: "buffer \<Rightarrow> store \<Rightarrow> nat \<times> store" where
  "Tensor_data d st = Tensor_init d False None [] st"

text \<open>The keyword arguments that the creation helpers pass on to the constructor.\<close>

record kwargs =
  kw_requires_grad :: bool
  kw_context :: "Context option"
  kw_name :: string

definition no_kwargs :: kwargs where
  "no_kwargs = \<lparr>kw_requires_grad = False, kw_context = None, kw_name = ''''\<rparr>"

definition Tensor_new :: "buffer \<Rightarrow> kwargs \<Rightarrow> store \<Rightarrow> nat \<times> store" where
  "Tensor_new d kw st = Tensor_init d (kw_requires_grad kw) (kw_context kw) (kw_name kw) st"

definition Tensor_zeros :: "nat list \<Rightarrow> kwargs \<Rightarrow> store \<Rightarrow> nat \<times> store" where
  "Tensor_zeros shp kw st = Tensor_new (np_zeros shp Float32) kw st"

definition Tensor_zeros_like :: "nat \<Rightarrow> kwargs \<Rightarrow> store \<Rightarrow> nat \<times> store" where
  "Tensor_zeros_like t kw st = Tensor_zeros (shape (data (cells st t))) kw st"

definition Tensor_ones :: "nat list \<Rightarrow> kwargs \<Rightarrow> store \<Rightarrow> nat \<times> store" where
  "Tensor_ones shp kw st = Tensor_new (np_ones shp Float32) kw st"

definition Tensor_ones_like :: "nat \<Rightarrow> kwargs \<Rightarrow> store \<Rightarrow> nat \<times> store" where
  "Tensor_ones_like t kw st = Tensor_new (np_ones (shape (data (cells st t))) Float32) kw st"

text \<open>
  \<^verbatim>\<open>np.empty\<close> leaves the memory as it finds it, and the random generators draw their
  samples: the contents \<open>xs\<close> are a parameter.
\<close>

definition Tensor_empty :: "real list \<Rightarrow> nat list \<Rightarrow> kwargs \<Rightarrow> store \<Rightarrow> nat \<times> store" where
  "Tensor_empty xs shp kw st = Tensor_new \<lparr>shape = shp, dtype = Float32, elems = xs\<rparr> kw st"

definition Tensor_randn :: "real list \<Rightarrow> nat list \<Rightarrow> kwargs \<Rightarrow> store \<Rightarrow> nat \<times> store" where
  "Tensor_randn xs shp kw st = Tensor_new \<lparr>shape = shp, dtype = Float32, elems = xs\<rparr> kw st"

definition Tensor_arange :: "real \<Rightarrow> real \<Rightarrow> kwargs \<Rightarrow> store \<Rightarrow> nat \<times> store" where
  "Tensor_arange stop start kw st = Tensor_new (np_arange start stop) kw st"

definition Tensor_uniform :: "real list \<Rightarrow> nat list \<Rightarrow> kwargs \<Rightarrow> store \<Rightarrow> nat \<times> store" where
  "Tensor_uniform xs shp kw st =
     Tensor_new \<lparr>shape = shp, dtype = Float32, elems = map (\<lambda>x. x * 2 - 1) xs\<rparr> kw st"

definition Tensor_eye :: "nat \<Rightarrow> kwargs \<Rightarrow> store \<Rightarrow> nat \<times> store" where
  "Tensor_eye n kw st = Tensor_new (np_eye n) kw st"

text \<open>The methods \<^verbatim>\<open>no_grad\<close> and \<^verbatim>\<open>requires_grad_\<close>; both return \<open>self\<close>.\<close>

definition no_grad :: "nat \<Rightarrow> store \<Rightarrow> store" where
  "no_grad self st = upd self (\<lambda>t. t\<lparr>requires_grad := False\<rparr>) st"

definition requires_grad_set :: "nat \<Rightarrow> store \<Rightarrow> store" where
  "requires_grad_set self st = upd self (\<lambda>t. t\<lparr>requires_grad := True\<rparr>) st"

section \<open>\<^verbatim>\<open>Tensor.comm\<close>\<close>

text \<open>
  \<^verbatim>\<open>operands = [t if isinstance(t, Tensor) else Tensor(t) for t in tensors]\<close>: the list
  comprehension allocates one leaf per raw operand, from left to right.
\<close>

fun coerce :: "pyval list \<Rightarrow> store \<Rightarrow> nat list \<times> store" where
  "coerce [] st = ([], st)"
| "coerce (TensorRef a # ts) st = (let (as, st') = coerce ts st in (a # as, st'))"
| "coerce (Raw d # ts) st =
     (let (a, st1) = Tensor_data d st;
          (as, st2) = coerce ts st1
      in (a # as, st2))"

text \<open>
  The \<^verbatim>\<open>forward\<close> class methods live in the operator modules. \<open>fw\<close> is that method, a
  parameter: from the operator class, the operand tensors, the keyword arguments and the
  store it gives the result buffer and the Context instance, or raises.
\<close>

type_synonym 'k forward = "operator \<Rightarrow> nat list \<Rightarrow> 'k \<Rightarrow> store \<Rightarrow> error + buffer \<times> Context"

definition comm ::
  "'k forward \<Rightarrow> operator \<Rightarrow> pyval list \<Rightarrow> 'k \<Rightarrow> store \<Rightarrow> error + nat \<times> store" where
  "comm fw opr tensors kw st =
     (let (operands, st1) = coerce tensors st
      in case fw opr operands kw st1 of
           Inl e \<Rightarrow> Inl e
         | Inr (d, c) \<Rightarrow> Inr (Tensor_init d True (Some c) '''' st1))"

section \<open>In-place operators\<close>

text \<open>\<^verbatim>\<open>x.data if isinstance(x, Tensor) else x\<close>\<close>

definition operand :: "store \<Rightarrow> pyval \<Rightarrow> buffer" where
  "operand st x = (case x of TensorRef b \<Rightarrow> data (cells st b) | Raw v \<Rightarrow> v)"

definition set_data :: "nat \<Rightarrow> buffer \<Rightarrow> store \<Rightarrow> store" where
  "set_data self d st = upd self (\<lambda>t. t\<lparr>data := d\<rparr>) st"

text \<open>
  \<^verbatim>\<open>self.data += x.data if isinstance(x, Tensor) else x; return self\<close> and its four
  siblings: the conditional expression is the right operand of the augmented assignment,
  which NumPy carries out in place. The returned object is \<open>self\<close>.
\<close>

definition inplace :: "numerics \<Rightarrow> ufunc \<Rightarrow> nat \<Rightarrow> pyval \<Rightarrow> store \<Rightarrow> error + store" where
  "inplace ev f self x st =
     (case np_inplace ev f (data (cells st self)) (operand st x) of
        Inl e \<Rightarrow> Inl e
      | Inr d \<Rightarrow> Inr (set_data self d st))"

definition Tensor_iadd :: "numerics \<Rightarrow> nat \<Rightarrow> pyval \<Rightarrow> store \<Rightarrow> error + store" where
  "Tensor_iadd ev self x st = inplace ev Add self x st"

definition Tensor_isub :: "numerics \<Rightarrow> nat \<Rightarrow> pyval \<Rightarrow> store \<Rightarrow> error + store" where
  "Tensor_isub ev self x st = inplace ev Subtract self x st"

definition Tensor_imul :: "numerics \<Rightarrow> nat \<Rightarrow> pyval \<Rightarrow> store \<Rightarrow> error + store" where
  "Tensor_imul ev self x st = inplace ev Multiply self x st"

definition Tensor_ipow :: "numerics \<Rightarrow> nat \<Rightarrow> pyval \<Rightarrow> store \<Rightarrow> error + store" where
  "Tensor_ipow ev self x st = inplace ev Power self x st"

definition Tensor_itruediv :: "numerics \<Rightarrow> nat \<Rightarrow> pyval \<Rightarrow> store \<Rightarrow> error + store" where
  "Tensor_itruediv ev self x st = inplace ev True_divide self x st"

text \<open>
  \<^verbatim>\<open>self.data = self.data @ x.data if isinstance(x, Tensor) else x; return self\<close>: here
  the conditional expression is the whole right-hand side of a plain assignment, so the
  product is its first branch and a raw \<open>x\<close> is assigned as it is.
\<close>

definition Tensor_imatmul :: "numerics \<Rightarrow> nat \<Rightarrow> pyval \<Rightarrow> store \<Rightarrow> error + store" where
  "Tensor_imatmul ev self x st =
     (case x of
        TensorRef b \<Rightarrow>
          (case np_matmul ev (data (cells st self)) (data (cells st b)) of
             Inl e \<Rightarrow> Inl e
           | Inr d \<Rightarrow> Inr (set_data self d st))
      | Raw v \<Rightarrow> Inr (set_data self v st))"

text \<open>The augmented assignment \<^verbatim>\<open>a op= x\<close> calls the method of its operator.\<close>

datatype iop = IAdd | ISub | IMul | IPow | ITruediv | IMatmul

fun augassign :: "numerics \<Rightarrow> iop \<Rightarrow> nat \<Rightarrow> pyval \<Rightarrow> store \<Rightarrow> error + store" where
  "augassign ev IAdd = Tensor_iadd ev"
| "augassign ev ISub = Tensor_isub ev"
| "augassign ev IMul = Tensor_imul ev"
| "augassign ev IPow = Tensor_ipow ev"
| "augassign ev ITruediv = Tensor_itruediv ev"
| "augassign ev IMatmul = Tensor_imatmul ev"

section \<open>\<^verbatim>\<open>Tensor.backward\<close>\<close>

text \<open>
  The nested function \<^verbatim>\<open>build_topo\<close> with its loop over \<^verbatim>\<open>context.parents\<close>. The pair
  \<open>(visited, topo)\<close> is the state of the two closure variables. \<open>depth\<close> is the number of
  nested calls that the interpreter's recursion limit still allows; beyond it Python raises
  RecursionError. A Context object is always true (the class defines neither
  \<^verbatim>\<open>__bool__\<close> nor \<^verbatim>\<open>__len__\<close>), \<^verbatim>\<open>None\<close> is false. The set holds tensors by identity.
\<close>

type_synonym acc = "nat set \<times> nat list"

function build_topo :: "nat \<Rightarrow> store \<Rightarrow> nat \<Rightarrow> acc \<Rightarrow> error + acc"
  and visit_parents :: "nat \<Rightarrow> store \<Rightarrow> nat \<Rightarrow> pyval list \<Rightarrow> acc \<Rightarrow> error + acc"
where
  "build_topo depth st t a =
     (case ctx (cells st t) of
        Deleted \<Rightarrow> Inl AttributeError
      | Val None \<Rightarrow> Inr a
      | Val (Some c) \<Rightarrow>
          (case visit_parents depth st t (parents c) a of
             Inl e \<Rightarrow> Inl e
           | Inr (visited, topo) \<Rightarrow> Inr (visited, topo @ [t])))"
| "visit_parents depth st t [] a = Inr a"
| "visit_parents depth st t (Raw v # ps) a = visit_parents depth st t ps a"
| "visit_parents depth st t (TensorRef u # ps) (visited, topo) =
     (if u \<notin> visited then
        (case depth of
           0 \<Rightarrow> Inl RecursionError
         | Suc k \<Rightarrow>
             (case build_topo k st u (insert t visited, topo) of
                Inl e \<Rightarrow> Inl e
              | Inr a' \<Rightarrow> visit_parents depth st t ps a'))
      else visit_parents depth st t ps (visited, topo))"
  by pat_completeness auto
termination
  by (relation "measures
        [\<lambda>x. case x of Inl (depth, st, t, a) \<Rightarrow> depth | Inr (depth, st, t, ps, a) \<Rightarrow> depth,
         \<lambda>x. case x of Inl _ \<Rightarrow> 1 | Inr _ \<Rightarrow> 0,
         \<lambda>x. case x of Inl _ \<Rightarrow> 0 | Inr (depth, st, t, ps, a) \<Rightarrow> length ps]")
     auto

text \<open>
  The \<^verbatim>\<open>backward\<close> methods live in the operator modules. \<open>kern\<close> is that method, a
  parameter: from the Context instance, the gradient of its output and the store it gives
  the store with the parents' gradients updated, or raises.
\<close>

type_synonym kernel = "Context \<Rightarrow> buffer \<Rightarrow> store \<Rightarrow> error + store"

text \<open>
  The loop \<^verbatim>\<open>for tensor in reversed(topo)\<close>. Reading \<^verbatim>\<open>tensor._ctx\<close> from an empty
  slot, calling \<^verbatim>\<open>backward\<close> on \<^verbatim>\<open>None\<close> and deleting an empty slot raise
  AttributeError.
\<close>

fun backward_loop :: "kernel \<Rightarrow> bool \<Rightarrow> nat list \<Rightarrow> store \<Rightarrow> error + store" where
  "backward_loop kern debug [] st = Inr st"
| "backward_loop kern debug (t # ts) st =
     (case ctx (cells st t) of
        Deleted \<Rightarrow> Inl AttributeError
      | Val None \<Rightarrow> Inl AttributeError
      | Val (Some c) \<Rightarrow>
          (case kern c (grad (cells st t)) st of
             Inl e \<Rightarrow> Inl e
           | Inr st1 \<Rightarrow>
               (if \<not> debug then
                  (case ctx (cells st1 t) of
                     Deleted \<Rightarrow> Inl AttributeError
                   | Val v \<Rightarrow> backward_loop kern debug ts (upd t (\<lambda>x. x\<lparr>ctx := Deleted\<rparr>) st1))
                else backward_loop kern debug ts st1)))"

definition backward :: "kernel \<Rightarrow> nat \<Rightarrow> store \<Rightarrow> nat \<Rightarrow> bool \<Rightarrow> error + store" where
  "backward kern depth st self debug =
     (case build_topo depth st self ({}, []) of
        Inl e \<Rightarrow> Inl e
      | Inr (visited, topo) \<Rightarrow>
          backward_loop kern debug (rev topo)
            (upd self (\<lambda>t. t\<lparr>grad := np_ones (shape (data t)) Float64\<rparr>) st))"

section \<open>Predicates of the claims\<close>

text \<open>What an in-place operator leaves alone: everything but the \<open>data\<close> of \<open>self\<close>.\<close>

definition only_data_changed :: "nat \<Rightarrow> store \<Rightarrow> store \<Rightarrow> bool" where
  "only_data_changed self st st' =
     (grad (cells st' self) = grad (cells st self) \<and>
      ctx (cells st' self) = ctx (cells st self) \<and>
      requires_grad (cells st' self) = requires_grad (cells st self) \<and>
      name (cells st' self) = name (cells st self) \<and>
      (\<forall>a. a \<noteq> self \<longrightarrow> cells st' a = cells st a) \<and>
      fresh st' = fresh st)"

text \<open>The gradient of a tensor has the shape of its value.\<close>

definition same_shape :: "tensor \<Rightarrow> bool" where
  "same_shape t = (shape (grad t) = shape (data t))"

text \<open>A tensor as the constructor leaves it when no Context is passed.\<close>

definition is_leaf :: "bool \<Rightarrow> tensor \<Rightarrow> bool" where
  "is_leaf rg t =
     (ctx t = Val None \<and> grad t = np_zeros (shape (data t)) Float32 \<and>
      dtype (data t) = Float32 \<and> requires_grad t = rg)"

text \<open>
  What \<^verbatim>\<open>comm\<close> hands to \<^verbatim>\<open>forward\<close> for an operand \<open>t\<close>: the Tensor itself, or a
  leaf made from the raw value.
\<close>

definition coerced :: "store \<Rightarrow> pyval \<Rightarrow> nat \<Rightarrow> bool" where
  "coerced st1 t a =
     (case t of
        TensorRef b \<Rightarrow> a = b
      | Raw v \<Rightarrow> cells st1 a = \<lparr>data = np_array v, grad = np_zeros (shape v) Float32,
                              ctx = Val None, requires_grad = False, name = []\<rparr>)"

text \<open>
  The contract of the operator kernels (the \<^verbatim>\<open>backward\<close> methods): a kernel writes to
  the \<open>grad\<close> of the Tensor parents of its Context and to nothing else, and it allocates
  nothing.
\<close>

definition writes_parent_grads :: "kernel \<Rightarrow> bool" where
  "writes_parent_grads kern =
     (\<forall>c g st st'. kern c g st = Inr st' \<longrightarrow>
        fresh st' = fresh st \<and>
        (\<forall>a. data (cells st' a) = data (cells st a) \<and>
             ctx (cells st' a) = ctx (cells st a) \<and>
             requires_grad (cells st' a) = requires_grad (cells st a) \<and>
             name (cells st' a) = name (cells st a) \<and>
             (TensorRef a \<notin> set (parents c) \<longrightarrow> grad (cells st' a) = grad (cells st a))))"

text \<open>A kernel that accumulates into the gradients in place keeps the shapes.\<close>

definition keeps_shapes :: "kernel \<Rightarrow> bool" where
  "keeps_shapes kern =
     (\<forall>c g st st'. kern c g st = Inr st' \<longrightarrow>
        (\<forall>a. shape (grad (cells st' a)) = shape (grad (cells st a)) \<and>
             shape (data (cells st' a)) = shape (data (cells st a))))"

text \<open>
  Graphs as \<^verbatim>\<open>comm\<close> builds them: the result is allocated after its operands, so the
  Tensor parents of a Context are older than the tensor that owns it.
\<close>

definition parents_older :: "store \<Rightarrow> bool" where
  "parents_older st =
     (\<forall>a c u. ctx (cells st a) = Val (Some c) \<longrightarrow> TensorRef u \<in> set (parents c) \<longrightarrow> u < a)"

section \<open>Concrete inputs\<close>

text \<open>
  An element arithmetic for the concrete runs: the real-number value of each universal
  function, for a right operand of the same shape or of one element, and the product of
  two matrices (a one-dimensional operand is one row or one column).
\<close>

definition elementwise :: "ufunc \<Rightarrow> real \<Rightarrow> real \<Rightarrow> real" where
  "elementwise f v y =
     (case f of Add \<Rightarrow> v + y | Subtract \<Rightarrow> v - y | Multiply \<Rightarrow> v * y
      | Power \<Rightarrow> v powr y | True_divide \<Rightarrow> v / y | Matmul \<Rightarrow> v * y)"

definition matrix_product :: "buffer \<Rightarrow> buffer \<Rightarrow> real list" where
  "matrix_product a x =
     (let n = (if length (shape a) = 1 then 1 else hd (shape a));
          k = last (shape a);
          m = (if length (shape x) = 1 then 1 else last (shape x))
      in concat (map (\<lambda>i. map (\<lambda>j. sum_list (map (\<lambda>l. elems a ! (i * k + l) * elems x ! (l * m + j))
                                                   [0..<k]))
                                [0..<m])
                     [0..<n]))"

definition exact :: numerics where
  "exact f a x =
     (if f = Matmul then matrix_product a x
      else if length (elems x) = 1 then map (\<lambda>v. elementwise f v (hd (elems x))) (elems a)
      else map2 (elementwise f) (elems a) (elems x))"

text \<open>
  The addition as an operator, for two operands of one shape: its forward records the
  operands as parents, its backward adds the upstream gradient to the \<open>grad\<close> of each
  parent, in place. The other operator classes are left as the base class \<^verbatim>\<open>Context\<close>,
  whose methods raise NotImplementedError.
\<close>

definition add_forward :: "unit forward" where
  "add_forward opr operands kw st =
     (case (opr, operands) of
        (Op_Add, [a, b]) \<Rightarrow>
          Inr ((data (cells st a))\<lparr>elems := exact Add (data (cells st a)) (data (cells st b))\<rparr>,
               \<lparr>cls = Op_Add, parents = [TensorRef a, TensorRef b]\<rparr>)
      | _ \<Rightarrow> Inl NotImplementedError)"

definition add_grad :: "buffer \<Rightarrow> store \<Rightarrow> pyval \<Rightarrow> store" where
  "add_grad g st p =
     (case p of
        TensorRef u \<Rightarrow> upd u (\<lambda>t. t\<lparr>grad := (grad t)\<lparr>elems := exact Add (grad t) g\<rparr>\<rparr>) st
      | Raw v \<Rightarrow> st)"

definition add_backward :: kernel where
  "add_backward c g st =
     (if cls c = Op_Add then Inr (foldl (add_grad g) st (parents c)) else Inl NotImplementedError)"

definition vec :: "real list \<Rightarrow> buffer" where
  "vec xs = \<lparr>shape = [length xs], dtype = Float32, elems = xs\<rparr>"

definition leaf :: "buffer \<Rightarrow> tensor" where
  "leaf d = \<lparr>data = d, grad = np_zeros_like d, ctx = Val None, requires_grad = False, name = []\<rparr>"

definition node :: "buffer \<Rightarrow> operator \<Rightarrow> nat list \<Rightarrow> tensor" where
  "node d f ps = \<lparr>data = d, grad = np_zeros_like d,
     ctx = Val (Some \<lparr>cls = f, parents = map TensorRef ps\<rparr>), requires_grad = True, name = []\<rparr>"

text \<open>Two leaves: \<^verbatim>\<open>a = Tensor([2.0]); b = Tensor([3.0])\<close>.\<close>

definition pair_store :: store where
  "pair_store = \<lparr>cells = (\<lambda>_. leaf (vec [2]))(1 := leaf (vec [3])), fresh = 2\<rparr>"

text \<open>A sum: \<^verbatim>\<open>a = Tensor([2.0]); b = Tensor([3.0]); c = a + b\<close>, at the addresses 0, 1, 2.\<close>

definition sum_store :: store where
  "sum_store = \<lparr>cells = (\<lambda>_. leaf (vec [2]))(1 := leaf (vec [3]),
      2 := node (vec [5]) Op_Add [0, 1]), fresh = 3\<rparr>"

text \<open>
  A shared sub-expression:
  \<^verbatim>\<open>a = Tensor([2.0]); b = a + a; e = b + b; f = b + e; root = f + e\<close>,
  at the addresses 0 to 4. Here \<open>root\<close> is \<open>10 * a\<close>.
\<close>

definition shared_graph :: store where
  "shared_graph = \<lparr>cells = (\<lambda>_. leaf (vec [2]))(1 := node (vec [4]) Op_Add [0, 0],
      2 := node (vec [8]) Op_Add [1, 1], 3 := node (vec [12]) Op_Add [1, 2],
      4 := node (vec [20]) Op_Add [3, 2]), fresh = 5\<rparr>"

text \<open>Two matrices: \<^verbatim>\<open>a = Tensor.zeros(2, 1); b = Tensor.zeros(1, 3)\<close>.\<close>

definition matrices :: store where
  "matrices = \<lparr>cells = (\<lambda>_. leaf (np_zeros [2, 1] Float32))(1 := leaf (np_zeros [1, 3] Float32)),
      fresh = 2\<rparr>"

section \<open>Basic facts\<close>

lemma upd_cells [simp]: "cells (upd a f st) = (cells st)(a := f (cells st a))"
  by (simp add: upd_def)

lemma upd_fresh [simp]: "fresh (upd a f st) = fresh st"
  by (simp add: upd_def)

lemma init_fst [simp]: "fst (Tensor_init d rg c nm st) = fresh st"
  by (simp add: Tensor_init_def Let_def)

lemma init_fresh [simp]: "fresh (snd (Tensor_init d rg c nm st)) = Suc (fresh st)"
  by (simp add: Tensor_init_def Let_def)

lemma init_cells [simp]:
  "cells (snd (Tensor_init d rg c nm st)) =
     (cells st)(fresh st := \<lparr>data = np_array d, grad = np_zeros_like (np_array d), ctx = Val c,
                              requires_grad = rg, name = nm\<rparr>)"
  by (simp add: Tensor_init_def Let_def)

section \<open>The in-place operators\<close>

lemma inplace_frame: "inplace ev f self x st = Inr st' \<Longrightarrow> only_data_changed self st st'"
  by (auto simp: inplace_def only_data_changed_def set_data_def split: sum.splits)

lemma imatmul_frame: "Tensor_imatmul ev self x st = Inr st' \<Longrightarrow> only_data_changed self st st'"
  by (auto simp: Tensor_imatmul_def only_data_changed_def set_data_def
      split: sum.splits pyval.splits)


lemma pair_imul:
  "augassign exact IMul 0 (TensorRef 1) pair_store = Inr (set_data 0 (vec [6]) pair_store)"
  by (simp add: Tensor_imul_def inplace_def np_inplace_def pair_store_def leaf_def vec_def
      operand_def exact_def elementwise_def)


text \<open>
  Claim C10. \<^verbatim>\<open>a @= x\<close> with a raw \<open>x\<close> makes \<open>x\<close> itself the \<open>data\<close> of \<open>a\<close>, whatever
  the shapes, and never raises; with a Tensor \<open>x\<close> it assigns the matrix product of the
  two \<open>data\<close> buffers, or raises what the product raises. In both cases \<open>grad\<close> and \<open>_ctx\<close>
  of \<open>a\<close> stay.
\<close>

theorem imatmul_assigns:
  "Tensor_imatmul ev self (Raw v) st = Inr (set_data self v st) \<and>
   data (cells (set_data self v st) self) = v \<and>
   grad (cells (set_data self v st) self) = grad (cells st self) \<and>
   ctx (cells (set_data self v st) self) = ctx (cells st self) \<and>
   (case np_matmul ev (data (cells st self)) (data (cells st b)) of
      Inl e \<Rightarrow> Tensor_imatmul ev self (TensorRef b) st = Inl e
    | Inr m \<Rightarrow> Tensor_imatmul ev self (TensorRef b) st = Inr (set_data self m st) \<and>
        data (cells (set_data self m st) self) = m \<and>
        grad (cells (set_data self m st) self) = grad (cells st self) \<and>
        ctx (cells (set_data self m st) self) = ctx (cells st self))"
  by (simp add: Tensor_imatmul_def set_data_def split: sum.splits)

section \<open>Construction\<close>

lemma init_leaf:
  "is_leaf rg (cells (snd (Tensor_init d rg None nm st)) (fst (Tensor_init d rg None nm st)))"
  by (simp add: is_leaf_def np_zeros_like_def np_array_def)

lemma new_leaf:
  "is_leaf (kw_requires_grad kw)
     (cells (snd (Tensor_new d (kw\<lparr>kw_context := None\<rparr>) st))
            (fst (Tensor_new d (kw\<lparr>kw_context := None\<rparr>) st)))"
  unfolding Tensor_new_def using init_leaf [of "kw_requires_grad kw" d "kw_name kw" st] by simp


section \<open>\<^verbatim>\<open>comm\<close>\<close>

lemma coerce_Ref:
  "coerce (TensorRef a # ts) st = (a # fst (coerce ts st), snd (coerce ts st))"
  by (simp add: case_prod_beta)

lemma coerce_Raw:
  "coerce (Raw v # ts) st =
     (fresh st # fst (coerce ts (snd (Tensor_data v st))), snd (coerce ts (snd (Tensor_data v st))))"
  by (simp add: case_prod_beta Tensor_data_def)

declare coerce.simps(2,3) [simp del]

lemma coerce_old:
  "fresh st \<le> fresh (snd (coerce ts st)) \<and>
   (\<forall>a<fresh st. cells (snd (coerce ts st)) a = cells st a) \<and>
   (\<forall>a. fresh st \<le> a \<and> a < fresh (snd (coerce ts st)) \<longrightarrow>
        is_leaf False (cells (snd (coerce ts st)) a))"
proof (induction ts arbitrary: st)
  case Nil
  then show ?case by auto
next
  case (Cons t ts)
  show ?case
  proof (cases t)
    case (TensorRef b)
    with Cons.IH [of st] show ?thesis
      by (simp add: coerce_Ref)
  next
    case (Raw v)
    let ?st0 = "snd (Tensor_data v st)"
    have f: "fresh ?st0 = Suc (fresh st)"
      by (simp add: Tensor_data_def)
    have l: "is_leaf False (cells ?st0 (fresh st))"
      using init_leaf [of False v "[]" st] by (simp add: Tensor_data_def)
    have o: "\<forall>a<fresh st. cells ?st0 a = cells st a"
      by (simp add: Tensor_data_def)
    let ?S = "snd (coerce ts ?st0)"
    from Cons.IH [of ?st0] f
    have i1: "Suc (fresh st) \<le> fresh ?S"
      and i2: "\<forall>a<Suc (fresh st). cells ?S a = cells ?st0 a"
      and i3: "\<forall>a. Suc (fresh st) \<le> a \<and> a < fresh ?S \<longrightarrow> is_leaf False (cells ?S a)"
      by simp_all
    from i1 have g1: "fresh st \<le> fresh ?S" by simp
    from i2 o have g2: "\<forall>a<fresh st. cells ?S a = cells st a" by simp
    have g3: "\<forall>a. fresh st \<le> a \<and> a < fresh ?S \<longrightarrow> is_leaf False (cells ?S a)"
    proof (intro allI impI)
      fix a
      assume a: "fresh st \<le> a \<and> a < fresh ?S"
      show "is_leaf False (cells ?S a)"
      proof (cases "a = fresh st")
        case True
        with i2 l show ?thesis by simp
      next
        case False
        with a have "Suc (fresh st) \<le> a \<and> a < fresh ?S" by simp
        with i3 show ?thesis by blast
      qed
    qed
    from g1 g2 g3 show ?thesis
      unfolding coerce_Raw Raw snd_conv by blast
  qed
qed

lemma coerce_operands:
  "list_all2 (coerced (snd (coerce ts st))) ts (fst (coerce ts st))"
proof (induction ts arbitrary: st)
  case Nil
  then show ?case by simp
next
  case (Cons t ts)
  show ?case
  proof (cases t)
    case (TensorRef b)
    with Cons.IH [of st] show ?thesis
      by (simp add: coerce_Ref coerced_def)
  next
    case (Raw v)
    let ?st0 = "snd (Tensor_data v st)"
    from coerce_old [of ?st0 ts]
    have "cells (snd (coerce ts ?st0)) (fresh st) = cells ?st0 (fresh st)"
      by (simp add: Tensor_data_def)
    then have "coerced (snd (coerce ts ?st0)) t (fresh st)"
      by (simp add: coerced_def Raw Tensor_data_def np_zeros_like_def np_array_def)
    with Cons.IH [of ?st0] show ?thesis
      by (simp add: coerce_Raw Raw)
  qed
qed

text \<open>
  Claim C5. \<^verbatim>\<open>comm\<close> hands to \<^verbatim>\<open>forward\<close> one tensor per operand, in order: the operand
  itself when it is a Tensor, and otherwise a new leaf holding the raw value as float32,
  with a zero \<open>grad\<close>, \<^verbatim>\<open>None\<close> for \<open>_ctx\<close> and a false flag. When \<^verbatim>\<open>forward\<close> raises, \<^verbatim>\<open>comm\<close>
  raises the same; when it returns a buffer and a Context, \<^verbatim>\<open>comm\<close> returns a new tensor
  with that buffer as float32 \<open>data\<close>, a zero \<open>grad\<close>, that Context as \<open>_ctx\<close> and the flag
  true, whatever the flags of the operands, and leaves the other tensors as they are.
\<close>

theorem comm_result:
  assumes "coerce tensors st = (operands, st1)"
  shows "list_all2 (coerced st1) tensors operands \<and>
    (case fw opr operands kw st1 of
       Inl e \<Rightarrow> comm fw opr tensors kw st = Inl e
     | Inr (d, c) \<Rightarrow>
         (\<exists>st2. comm fw opr tensors kw st = Inr (fresh st1, st2) \<and>
            cells st2 (fresh st1) =
              \<lparr>data = np_array d, grad = np_zeros (shape d) Float32, ctx = Val (Some c),
               requires_grad = True, name = []\<rparr> \<and>
            (\<forall>a. a \<noteq> fresh st1 \<longrightarrow> cells st2 a = cells st1 a) \<and> fresh st2 = Suc (fresh st1)))"
proof -
  have "list_all2 (coerced st1) tensors operands"
    using assms coerce_operands [of tensors st] by simp
  moreover have "case fw opr operands kw st1 of
       Inl e \<Rightarrow> comm fw opr tensors kw st = Inl e
     | Inr (d, c) \<Rightarrow>
         (\<exists>st2. comm fw opr tensors kw st = Inr (fresh st1, st2) \<and>
            cells st2 (fresh st1) =
              \<lparr>data = np_array d, grad = np_zeros (shape d) Float32, ctx = Val (Some c),
               requires_grad = True, name = []\<rparr> \<and>
            (\<forall>a. a \<noteq> fresh st1 \<longrightarrow> cells st2 a = cells st1 a) \<and> fresh st2 = Suc (fresh st1))"
    using assms
    by (auto simp: comm_def Tensor_init_def Let_def np_zeros_like_def np_array_def
        split: sum.splits prod.splits)
  ultimately show ?thesis by simp
qed

lemma pair_coerce:
  "coerce [TensorRef 0, Raw (vec [3])] pair_store =
     ([0, 2], snd (Tensor_data (vec [3]) pair_store))"
  by (simp add: coerce_Ref coerce_Raw pair_store_def)

theorem comm_result_witness:
  "coerce [TensorRef 0, Raw (vec [3])] pair_store = ([0, 2], snd (Tensor_data (vec [3]) pair_store)) \<and>
   (\<exists>st2. comm add_forward Op_Add [TensorRef 0, Raw (vec [3])] () pair_store = Inr (3, st2) \<and>
      ctx (cells st2 3) = Val (Some \<lparr>cls = Op_Add, parents = [TensorRef 0, TensorRef 2]\<rparr>) \<and>
      requires_grad (cells st2 3) \<and> data (cells st2 3) = vec [5] \<and>
      ctx (cells st2 2) = Val None \<and> \<not> requires_grad (cells st2 2))"
  using comm_result [OF pair_coerce, of add_forward Op_Add "()"] pair_coerce
  by (auto simp: add_forward_def Tensor_data_def pair_store_def leaf_def coerced_def vec_def
      np_array_def np_zeros_like_def exact_def elementwise_def)

section \<open>\<^verbatim>\<open>backward\<close>\<close>



lemma topo_bound:
  "parents_older st \<Longrightarrow> build_topo depth st t a = Inr a' \<Longrightarrow>
     set (snd a') \<subseteq> set (snd a) \<union> {x. x \<le> t}"
  "parents_older st \<Longrightarrow> visit_parents depth st t ps a = Inr a' \<Longrightarrow>
     \<forall>u. TensorRef u \<in> set ps \<longrightarrow> u < t \<Longrightarrow>
     set (snd a') \<subseteq> set (snd a) \<union> {x. x < t}"
proof (induction depth st t a and depth st t ps a arbitrary: a' and a'
    rule: build_topo_visit_parents.induct)
  case (1 depth st t a)
  show ?case
  proof (cases "ctx (cells st t)")
    case Deleted
    with "1.prems" show ?thesis by simp
  next
    case (Val v)
    show ?thesis
    proof (cases v)
      case None
      with Val "1.prems" show ?thesis by auto
    next
      case (Some c)
      with Val "1.prems" obtain visited topo
        where v: "visit_parents depth st t (parents c) a = Inr (visited, topo)"
          and a': "a' = (visited, topo @ [t])"
        by (auto split: sum.splits)
      from "1.prems"(1) Val Some have "\<forall>u. TensorRef u \<in> set (parents c) \<longrightarrow> u < t"
        by (auto simp: parents_older_def)
      from "1.IH" [OF Val Some "1.prems"(1) v this] a' show ?thesis
        by auto
    qed
  qed
next
  case (2 depth st t a)
  then show ?case by simp
next
  case (3 depth st t v ps a)
  then show ?case by simp
next
  case (4 depth st t u ps visited topo)
  show ?case
  proof (cases "u \<in> visited")
    case True
    with "4.prems" "4.IH"(3) show ?thesis by simp
  next
    case False
    with "4.prems" obtain k a1 where d: "depth = Suc k"
      and b: "build_topo k st u (insert t visited, topo) = Inr a1"
      and v: "visit_parents depth st t ps a1 = Inr a'"
      by (auto split: nat.splits sum.splits)
    from "4.prems" have ut: "u < t" by simp
    from "4.IH"(1) [OF False d "4.prems"(1) b]
    have s1: "set (snd a1) \<subseteq> set topo \<union> {x. x \<le> u}" by simp
    from "4.prems" have "\<forall>u. TensorRef u \<in> set ps \<longrightarrow> u < t" by simp
    from "4.IH"(2) [OF False d b "4.prems"(1) v this]
    have "set (snd a') \<subseteq> set (snd a1) \<union> {x. x < t}" .
    with s1 ut show ?thesis by auto
  qed
qed


lemma topo_last:
  assumes "build_topo depth st t a = Inr (visited, topo)" and "ctx (cells st t) = Val (Some c)"
  shows "t \<in> set topo"
  using assms by (auto split: sum.splits)

lemma kernel_step:
  assumes "writes_parent_grads kern" and "kern c g st = Inr st1"
  shows "fresh st1 = fresh st" and "data (cells st1 a) = data (cells st a)"
    and "ctx (cells st1 a) = ctx (cells st a)"
    and "requires_grad (cells st1 a) = requires_grad (cells st a)"
    and "name (cells st1 a) = name (cells st a)"
    and "TensorRef a \<notin> set (parents c) \<Longrightarrow> grad (cells st1 a) = grad (cells st a)"
  using assms unfolding writes_parent_grads_def by blast+

lemma parents_older_step:
  assumes "parents_older st" and "\<forall>a. ctx (cells st1 a) = ctx (cells st a) \<or> ctx (cells st1 a) = Deleted"
  shows "parents_older st1"
  unfolding parents_older_def
proof (intro allI impI)
  fix a c u
  assume c: "ctx (cells st1 a) = Val (Some c)" and u: "TensorRef u \<in> set (parents c)"
  from assms(2) c have "ctx (cells st a) = Val (Some c)"
    by (metis slot.distinct(1))
  with assms(1) u show "u < a"
    unfolding parents_older_def by blast
qed

lemma loop_keeps_root:
  assumes k: "writes_parent_grads kern"
  shows "parents_older st \<Longrightarrow> \<forall>t\<in>set ts. t \<le> r \<Longrightarrow> backward_loop kern debug ts st = Inr st' \<Longrightarrow>
    grad (cells st' r) = grad (cells st r) \<and> data (cells st' r) = data (cells st r)"
proof (induction ts arbitrary: st)
  case Nil
  then show ?case by simp
next
  case (Cons t ts)
  from Cons.prems(3) obtain c st1 where c: "ctx (cells st t) = Val (Some c)"
    and s1: "kern c (grad (cells st t)) st = Inr st1"
    by (auto split: slot.splits option.splits sum.splits)
  let ?st2 = "if debug then st1 else upd t (\<lambda>x. x\<lparr>ctx := Deleted\<rparr>) st1"
  from Cons.prems(3) c s1 have l: "backward_loop kern debug ts ?st2 = Inr st'"
    by (auto split: slot.splits if_splits)
  from Cons.prems(1) c have "\<forall>u. TensorRef u \<in> set (parents c) \<longrightarrow> u < t"
    unfolding parents_older_def by blast
  moreover from Cons.prems(2) have "t \<le> r" by simp
  ultimately have "TensorRef r \<notin> set (parents c)" by auto
  from kernel_step(6) [OF k s1 this] kernel_step(2) [OF k s1]
  have r: "grad (cells ?st2 r) = grad (cells st r) \<and> data (cells ?st2 r) = data (cells st r)"
    by auto
  have "\<forall>a. ctx (cells ?st2 a) = ctx (cells st a) \<or> ctx (cells ?st2 a) = Deleted"
    using kernel_step(3) [OF k s1] by simp
  with Cons.prems(1) have "parents_older ?st2" by (rule parents_older_step)
  from Cons.IH [OF this _ l] Cons.prems(2) r show ?case by simp
qed

text \<open>
  Claim C6. When \<^verbatim>\<open>backward\<close> returns, the \<open>grad\<close> of the tensor it was called on is the
  buffer of ones of the shape of its \<open>data\<close>, whatever \<open>grad\<close> held before, and its \<open>data\<close>
  is unchanged. This is the seed of the chain rule: the assignment comes before the loop,
  and no kernel of the loop writes to the root, since a kernel writes to the parents of its
  Context and, in a graph built by \<^verbatim>\<open>comm\<close>, the parents of every tensor reached are older
  than the root.
\<close>

theorem backward_seeds_root:
  assumes "writes_parent_grads kern" and "parents_older st"
    and "backward kern depth st self debug = Inr st'"
  shows "grad (cells st' self) = np_ones (shape (data (cells st' self))) Float64 \<and>
         data (cells st' self) = data (cells st self)"
proof -
  let ?st0 = "upd self (\<lambda>t. t\<lparr>grad := np_ones (shape (data t)) Float64\<rparr>) st"
  from assms(3) obtain visited topo
    where b: "build_topo depth st self ({}, []) = Inr (visited, topo)"
      and l: "backward_loop kern debug (rev topo) ?st0 = Inr st'"
    by (auto simp: backward_def split: sum.splits)
  from topo_bound(1) [OF assms(2) b] have t: "\<forall>t\<in>set (rev topo). t \<le> self" by auto
  have "parents_older ?st0"
    by (rule parents_older_step [OF assms(2)]) simp
  from loop_keeps_root [OF assms(1) this t l] show ?thesis by simp
qed

lemma loop_deletes:
  assumes k: "writes_parent_grads kern"
  shows "backward_loop kern False ts st = Inr st' \<Longrightarrow>
    (\<forall>a. ctx (cells st a) = Deleted \<longrightarrow> ctx (cells st' a) = Deleted) \<and>
    (\<forall>t\<in>set ts. ctx (cells st' t) = Deleted)"
proof (induction ts arbitrary: st)
  case Nil
  then show ?case by simp
next
  case (Cons t ts)
  from Cons.prems obtain c st1 where c: "ctx (cells st t) = Val (Some c)"
    and s1: "kern c (grad (cells st t)) st = Inr st1"
    by (auto split: slot.splits option.splits sum.splits)
  let ?st2 = "upd t (\<lambda>x. x\<lparr>ctx := Deleted\<rparr>) st1"
  from Cons.prems c s1 have l: "backward_loop kern False ts ?st2 = Inr st'"
    by (auto split: slot.splits)
  have "ctx (cells ?st2 t) = Deleted" by simp
  moreover have "\<forall>a. ctx (cells st a) = Deleted \<longrightarrow> ctx (cells ?st2 a) = Deleted"
    using kernel_step(3) [OF k s1] by simp
  ultimately show ?case using Cons.IH [OF l] by auto
qed

text \<open>
  Claim C7. After a \<^verbatim>\<open>backward\<close> without the debug flag that returned, the \<open>_ctx\<close> slot of
  every tensor of the topological list is empty, and a further \<^verbatim>\<open>backward\<close> on the same
  root, a tensor that had a Context, raises AttributeError at once, with any recursion limit
  and either debug flag: the torn-down graph is not traversed again.
\<close>

theorem backward_tears_down:
  assumes "writes_parent_grads kern"
    and "ctx (cells st self) = Val (Some c)"
    and "build_topo depth st self ({}, []) = Inr (visited, topo)"
    and "backward kern depth st self False = Inr st'"
  shows "(\<forall>t\<in>set topo. ctx (cells st' t) = Deleted) \<and>
         backward kern depth' st' self debug = Inl AttributeError"
proof -
  let ?st0 = "upd self (\<lambda>t. t\<lparr>grad := np_ones (shape (data t)) Float64\<rparr>) st"
  from assms(3,4) have l: "backward_loop kern False (rev topo) ?st0 = Inr st'"
    by (simp add: backward_def)
  from loop_deletes [OF assms(1) l] have d: "\<forall>t\<in>set topo. ctx (cells st' t) = Deleted"
    by simp
  moreover from topo_last [OF assms(3,2)] d have "ctx (cells st' self) = Deleted" by blast
  then have "backward kern depth' st' self debug = Inl AttributeError"
    by (simp add: backward_def)
  ultimately show ?thesis by simp
qed


text \<open>The addition kernel of the concrete runs meets the contract.\<close>

lemma add_grad_fold:
  "fresh (foldl (add_grad g) st ps) = fresh st \<and>
   (\<forall>a. data (cells (foldl (add_grad g) st ps) a) = data (cells st a) \<and>
        ctx (cells (foldl (add_grad g) st ps) a) = ctx (cells st a) \<and>
        requires_grad (cells (foldl (add_grad g) st ps) a) = requires_grad (cells st a) \<and>
        name (cells (foldl (add_grad g) st ps) a) = name (cells st a) \<and>
        shape (grad (cells (foldl (add_grad g) st ps) a)) = shape (grad (cells st a)) \<and>
        (TensorRef a \<notin> set ps \<longrightarrow> grad (cells (foldl (add_grad g) st ps) a) = grad (cells st a)))"
proof (induction ps arbitrary: st)
  case Nil
  then show ?case by simp
next
  case (Cons p ps)
  have s: "fresh (add_grad g st p) = fresh st \<and>
    (\<forall>a. data (cells (add_grad g st p) a) = data (cells st a) \<and>
        ctx (cells (add_grad g st p) a) = ctx (cells st a) \<and>
        requires_grad (cells (add_grad g st p) a) = requires_grad (cells st a) \<and>
        name (cells (add_grad g st p) a) = name (cells st a) \<and>
        shape (grad (cells (add_grad g st p) a)) = shape (grad (cells st a)) \<and>
        (TensorRef a \<noteq> p \<longrightarrow> grad (cells (add_grad g st p) a) = grad (cells st a)))"
    by (cases p) (auto simp: add_grad_def)
  from Cons.IH [of "add_grad g st p"] s show ?case by simp
qed

lemma add_backward_writes: "writes_parent_grads add_backward"
  unfolding writes_parent_grads_def add_backward_def
  using add_grad_fold by (auto split: if_splits)

lemma add_backward_shapes: "keeps_shapes add_backward"
  unfolding keeps_shapes_def add_backward_def
  using add_grad_fold by (auto split: if_splits)

lemma sum_store_older: "parents_older sum_store"
  by (auto simp: parents_older_def sum_store_def node_def leaf_def split: if_splits)

lemma sum_store_topo: "build_topo 1 sum_store 2 ({}, []) = Inr ({2}, [2])"
  by (simp add: sum_store_def node_def leaf_def)

lemma sum_store_runs: "\<exists>st'. backward add_backward 1 sum_store 2 debug = Inr st'"
  unfolding backward_def sum_store_topo
  by (simp add: add_backward_def add_grad_def sum_store_def node_def del: build_topo.simps)

theorem backward_seeds_root_witness:
  "\<exists>st'. backward add_backward 1 sum_store 2 True = Inr st' \<and>
     grad (cells st' 2) = \<lparr>shape = [1], dtype = Float64, elems = [1]\<rparr>"
proof -
  from sum_store_runs obtain st' where r: "backward add_backward 1 sum_store 2 True = Inr st'"
    by blast
  from backward_seeds_root [OF add_backward_writes sum_store_older r]
  have "grad (cells st' 2) = \<lparr>shape = [1], dtype = Float64, elems = [1]\<rparr>"
    by (simp add: sum_store_def node_def vec_def np_ones_def)
  with r show ?thesis by blast
qed

theorem backward_tears_down_witness:
  "\<exists>st'. backward add_backward 1 sum_store 2 False = Inr st' \<and>
     ctx (cells st' 2) = Deleted \<and>
     backward add_backward 1 st' 2 False = Inl AttributeError"
proof -
  from sum_store_runs obtain st' where r: "backward add_backward 1 sum_store 2 False = Inr st'"
    by blast
  have c: "ctx (cells sum_store 2) = Val (Some \<lparr>cls = Op_Add, parents = [TensorRef 0, TensorRef 1]\<rparr>)"
    by (simp add: sum_store_def node_def)
  from backward_tears_down [OF add_backward_writes c sum_store_topo r, of 1 False] r
  show ?thesis by auto
qed

section \<open>A shared sub-expression\<close>

lemma shared_graph_topo:
  "build_topo 5 shared_graph 4 ({}, []) = Inr ({1, 3, 4}, [1, 2, 3, 2, 4])"
  by (simp add: shared_graph_def node_def leaf_def insert_commute)

lemma shared_graph_ctx:
  "ctx (cells shared_graph 4) = Val (Some \<lparr>cls = Op_Add, parents = [TensorRef 3, TensorRef 2]\<rparr>)"
  "ctx (cells shared_graph 3) = Val (Some \<lparr>cls = Op_Add, parents = [TensorRef 1, TensorRef 2]\<rparr>)"
  "ctx (cells shared_graph 2) = Val (Some \<lparr>cls = Op_Add, parents = [TensorRef 1, TensorRef 1]\<rparr>)"
  by (simp_all add: shared_graph_def node_def)

lemma ctx_add_grad: "ctx (cells (add_grad g st p) a) = ctx (cells st a)"
  by (cases p) (simp_all add: add_grad_def)

lemma grad_add_grad:
  "grad (cells (add_grad g st (TensorRef u)) a) =
     (if a = u then (grad (cells st u))\<lparr>elems := exact Add (grad (cells st u)) g\<rparr>
      else grad (cells st a))"
  by (simp add: add_grad_def)

lemma shared_graph_cells:
  "grad (cells shared_graph 0) = \<lparr>shape = [1], dtype = Float32, elems = [0]\<rparr>"
  "grad (cells shared_graph (Suc 0)) = \<lparr>shape = [1], dtype = Float32, elems = [0]\<rparr>"
  "grad (cells shared_graph 2) = \<lparr>shape = [1], dtype = Float32, elems = [0]\<rparr>"
  "grad (cells shared_graph 3) = \<lparr>shape = [1], dtype = Float32, elems = [0]\<rparr>"
  "shape (data (cells shared_graph 4)) = [1]"
  "ctx (cells shared_graph (Suc 0)) = Val (Some \<lparr>cls = Op_Add, parents = [TensorRef 0, TensorRef 0]\<rparr>)"
  by (simp_all add: shared_graph_def node_def leaf_def vec_def np_zeros_like_def np_zeros_def)

lemma exact_add_one:
  "exact Add \<lparr>shape = s, dtype = d, elems = [v]\<rparr> \<lparr>shape = s', dtype = d', elems = [y]\<rparr> = [v + y]"
  by (simp add: exact_def elementwise_def)

text \<open>
  Claim C1, at a graph with a shared sub-expression. \<^verbatim>\<open>build_topo\<close> adds to \<open>visited\<close> the
  tensor whose parents it is looping over, and only when it meets a parent that is not yet
  in the set. A tensor all of whose Tensor parents are already there is therefore never
  marked, and is appended once more each time it is reached. In the graph
  \<^verbatim>\<open>b = a + a; e = b + b; f = b + e; root = f + e\<close> the list is \<open>[b, e, f, e, root]\<close>: the
  loop over the reversed list calls the backward of \<open>e\<close> before that of \<open>f\<close>, one of whose
  parents is \<open>e\<close>, so before \<open>e.grad\<close> has the contribution of \<open>f\<close>.
\<close>

theorem shared_graph_order:
  "build_topo 5 shared_graph 4 ({}, []) = Inr ({1, 3, 4}, [1, 2, 3, 2, 4]) \<and>
   rev [1, 2, 3, 2, 4] = [4, 2, 3, 2, 1 :: nat] \<and>
   ctx (cells shared_graph 3) = Val (Some \<lparr>cls = Op_Add, parents = [TensorRef 1, TensorRef 2]\<rparr>)"
  by (simp add: shared_graph_topo shared_graph_ctx del: build_topo.simps)


text \<open>
  Claim C2, at the same graph. \<open>e\<close> stands twice in the list. Without the debug flag the
  second visit reads the slot that the first one emptied, and \<^verbatim>\<open>backward\<close> raises
  AttributeError. With the flag the backward of \<open>e\<close> runs twice and the gradient of \<open>a\<close>
  ends as 14, where \<open>root = 10 * a\<close>.
\<close>

theorem shared_graph_twice:
  "backward add_backward 5 shared_graph 4 False = Inl AttributeError \<and>
   map_sum id (\<lambda>st. elems (grad (cells st 0))) (backward add_backward 5 shared_graph 4 True)
     = Inr [14]"
  unfolding backward_def shared_graph_topo
  by (simp add: add_backward_def ctx_add_grad grad_add_grad shared_graph_ctx shared_graph_cells
      exact_add_one np_ones_def del: build_topo.simps)

section \<open>The shape of the gradient\<close>

lemma is_leaf_same_shape: "is_leaf rg t \<Longrightarrow> same_shape t"
  by (simp add: is_leaf_def same_shape_def np_zeros_def)

lemma loop_shapes:
  assumes k: "keeps_shapes kern"
  shows "backward_loop kern debug ts st = Inr st' \<Longrightarrow>
    shape (grad (cells st' a)) = shape (grad (cells st a)) \<and>
    shape (data (cells st' a)) = shape (data (cells st a))"
proof (induction ts arbitrary: st)
  case Nil
  then show ?case by simp
next
  case (Cons t ts)
  from Cons.prems obtain c st1 where c: "ctx (cells st t) = Val (Some c)"
    and s1: "kern c (grad (cells st t)) st = Inr st1"
    by (auto split: slot.splits option.splits sum.splits)
  let ?st2 = "if debug then st1 else upd t (\<lambda>x. x\<lparr>ctx := Deleted\<rparr>) st1"
  from Cons.prems c s1 have l: "backward_loop kern debug ts ?st2 = Inr st'"
    by (auto split: slot.splits if_splits)
  from k s1 have "shape (grad (cells st1 a)) = shape (grad (cells st a)) \<and>
      shape (data (cells st1 a)) = shape (data (cells st a))"
    unfolding keeps_shapes_def by blast
  then have "shape (grad (cells ?st2 a)) = shape (grad (cells st a)) \<and>
      shape (data (cells ?st2 a)) = shape (data (cells st a))"
    by auto
  with Cons.IH [OF l] show ?case by simp
qed

lemma backward_shapes:
  assumes "keeps_shapes kern" and "backward kern depth st self debug = Inr st'"
  shows "same_shape (cells st' self) \<and> (\<forall>a. same_shape (cells st a) \<longrightarrow> same_shape (cells st' a))"
proof -
  let ?st0 = "upd self (\<lambda>t. t\<lparr>grad := np_ones (shape (data t)) Float64\<rparr>) st"
  from assms(2) obtain visited topo
    where l: "backward_loop kern debug (rev topo) ?st0 = Inr st'"
    by (auto simp: backward_def split: sum.splits)
  have 0: "same_shape (cells ?st0 self) \<and> (\<forall>a. same_shape (cells st a) \<longrightarrow> same_shape (cells ?st0 a))"
    by (simp add: same_shape_def np_ones_def)
  with loop_shapes [OF assms(1) l] show ?thesis
    by (simp add: same_shape_def)
qed

lemma inplace_shapes:
  assumes "k \<noteq> IMatmul" and "augassign ev k self x st = Inr st'"
  shows "same_shape (cells st a) \<longrightarrow> same_shape (cells st' a)"
  using assms
  by (cases k)
     (auto simp: Tensor_iadd_def Tensor_isub_def Tensor_imul_def Tensor_ipow_def
        Tensor_itruediv_def inplace_def np_inplace_def set_data_def same_shape_def
        split: sum.splits if_splits)

lemma comm_shapes:
  assumes "comm fw opr ts kw st = Inr (r, st2)"
  shows "(\<forall>a<fresh st. cells st2 a = cells st a) \<and>
         (\<forall>a. fresh st \<le> a \<and> a < fresh st2 \<longrightarrow> same_shape (cells st2 a)) \<and>
         fresh st \<le> r \<and> r < fresh st2"
proof -
  let ?st1 = "snd (coerce ts st)"
  from assms obtain d c where i: "Tensor_init d True (Some c) [] ?st1 = (r, st2)"
    by (auto simp: comm_def case_prod_beta split: sum.splits)
  from arg_cong [OF i, of fst] have r: "r = fresh ?st1" by simp
  from arg_cong [OF i, of snd] have st2: "st2 = snd (Tensor_init d True (Some c) [] ?st1)"
    by (simp del: init_cells)
  note o = coerce_old [of st ts]
  have n: "same_shape (cells st2 (fresh ?st1))"
    unfolding st2 by (simp add: same_shape_def np_zeros_like_def np_zeros_def)
  have 1: "\<forall>a<fresh st. cells st2 a = cells st a"
    using o unfolding st2 by auto
  have 2: "\<forall>a. fresh st \<le> a \<and> a < fresh st2 \<longrightarrow> same_shape (cells st2 a)"
  proof (intro allI impI)
    fix a
    assume a: "fresh st \<le> a \<and> a < fresh st2"
    show "same_shape (cells st2 a)"
    proof (cases "a = fresh ?st1")
      case True
      with n show ?thesis by simp
    next
      case False
      with a have "fresh st \<le> a \<and> a < fresh ?st1"
        unfolding st2 by simp
      with o have "is_leaf False (cells ?st1 a)" by blast
      then have "same_shape (cells ?st1 a)" by (rule is_leaf_same_shape)
      with False show ?thesis unfolding st2 by simp
    qed
  qed
  from o r have 3: "fresh st \<le> r \<and> r < fresh st2"
    unfolding st2 by simp
  from 1 2 3 show ?thesis by blast
qed






lemma sum_comm:
  "\<exists>st2. comm add_forward Op_Add [TensorRef 0, Raw (vec [3])] () sum_store = Inr (4, st2)"
  by (simp add: comm_def coerce_Ref coerce_Raw add_forward_def Tensor_data_def Tensor_init_def
      sum_store_def case_prod_beta Let_def)

lemma sum_imul:
  "augassign exact IMul 2 (TensorRef 1) sum_store = Inr (set_data 2 (vec [15]) sum_store)"
  by (simp add: Tensor_imul_def inplace_def np_inplace_def sum_store_def node_def leaf_def vec_def
      operand_def exact_def elementwise_def)

lemma sum_store_shapes: "same_shape (cells sum_store a)"
  by (simp add: sum_store_def node_def leaf_def same_shape_def np_zeros_like_def np_zeros_def)


end
